theory Spec2Isabelle
  imports Complex_Main
begin

section \<open>Python values used by xkcd_password.py\<close>

text \<open>
  The program is \<^verbatim>\<open>src/xkcdpass/xkcd_password.py\<close>. Text is modelled as \<^typ>\<open>string\<close>: one
  \<^typ>\<open>char\<close> stands for one ASCII code point, and the string methods below are Python's
  on ASCII text. Python integers are \<^typ>\<open>int\<close>. An exception that leaves a function is a
  value of \<open>failure\<close>; \<open>SystemExit n\<close> is what \<^verbatim>\<open>sys.exit(n)\<close> raises.
\<close>

datatype failure =
    SystemExit int
  | KeyError
  | IndexError
  | ValueError
  | OverflowError
  | TypeError
  | AttributeError
  | RegexError

subsection \<open>String methods\<close>

definition whitespace :: "char list" where
  "whitespace = [CHR 0x09, CHR 0x0A, CHR 0x0B, CHR 0x0C, CHR 0x0D,
                 CHR 0x1C, CHR 0x1D, CHR 0x1E, CHR 0x1F, CHR 0x20]"

definition isspace :: "char \<Rightarrow> bool" where
  "isspace c = (c \<in> set whitespace)"

text \<open>\<^verbatim>\<open>s.strip()\<close>: the leading and the trailing whitespace removed.\<close>

definition str_strip :: "string \<Rightarrow> string" where
  "str_strip s = rev (dropWhile isspace (rev (dropWhile isspace s)))"

definition ascii_lowercase :: string where
  "ascii_lowercase = ''abcdefghijklmnopqrstuvwxyz''"

definition ascii_uppercase :: string where
  "ascii_uppercase = ''ABCDEFGHIJKLMNOPQRSTUVWXYZ''"

definition char_upper :: "char \<Rightarrow> char" where
  "char_upper c =
     (case map_of (zip ascii_lowercase ascii_uppercase) c of Some u \<Rightarrow> u | None \<Rightarrow> c)"

definition char_lower :: "char \<Rightarrow> char" where
  "char_lower c =
     (case map_of (zip ascii_uppercase ascii_lowercase) c of Some l \<Rightarrow> l | None \<Rightarrow> c)"

definition str_upper :: "string \<Rightarrow> string" where
  "str_upper s = map char_upper s"

definition str_lower :: "string \<Rightarrow> string" where
  "str_lower s = map char_lower s"

text \<open>\<^verbatim>\<open>s.capitalize()\<close>: the first character in upper case, the others in lower case.\<close>

definition str_capitalize :: "string \<Rightarrow> string" where
  "str_capitalize s = (case s of [] \<Rightarrow> [] | c # cs \<Rightarrow> char_upper c # map char_lower cs)"

text \<open>\<^verbatim>\<open>d.join(ws)\<close>: the delimiter stands between two words, never after the last.\<close>

fun str_join :: "string \<Rightarrow> string list \<Rightarrow> string" where
  "str_join d [] = []"
| "str_join d [w] = w"
| "str_join d (w # v # ws) = w @ d @ str_join d (v # ws)"

text \<open>\<^verbatim>\<open>str(n)\<close> of an integer, which is also how \<^verbatim>\<open>format\<close> prints it.\<close>

definition digit_char :: "nat \<Rightarrow> char" where
  "digit_char d = ''0123456789'' ! d"

fun str_nat :: "nat \<Rightarrow> string" where
  "str_nat n = (if n < 10 then [digit_char n] else str_nat (n div 10) @ [digit_char (n mod 10)])"

declare str_nat.simps [simp del]

definition str_int :: "int \<Rightarrow> string" where
  "str_int i = (if i < 0 then CHR ''-'' # str_nat (nat (- i)) else str_nat (nat i))"

subsection \<open>The regular expression of the filter\<close>

text \<open>
  \<^verbatim>\<open>generate_wordlist\<close> compiles \<^verbatim>\<open>"^{0}{{{1},{2}}}$".format(valid_chars, min_length, max_length)\<close>.
  The fragment \<^verbatim>\<open>valid_chars\<close> is taken by what it denotes, a set of allowed characters
  \<^typ>\<open>char \<Rightarrow> bool\<close> (the default \<^verbatim>\<open>.\<close> is every character but the newline). What follows
  it is read by the \<^verbatim>\<open>re\<close> module as follows.
  \<^item> Two non-negative numbers make the repetition \<^verbatim>\<open>{lo,hi}\<close>. A number from \<^verbatim>\<open>MAXREPEAT\<close> on
    raises \<^verbatim>\<open>OverflowError\<close>, and \<^verbatim>\<open>hi < lo\<close> raises the module's error.
  \<^item> A negative number prints with a minus sign. The parser of \<^verbatim>\<open>re\<close> takes an opening brace
    for a repetition only when digits, an optional comma with digits, and the closing brace
    follow it; any other opening brace is an ordinary character. So with a negative bound
    the brace and everything up to \<^verbatim>\<open>$\<close> are literal characters: \<^verbatim>\<open>^.{-1,5}$\<close> matches one
    character followed by the six characters \<^verbatim>\<open>{-1,5}\<close>, and raises nothing.
  \<^verbatim>\<open>$\<close> matches at the end of the text and also before a newline that ends the text.
\<close>

datatype regexp =
    Repeat nat nat
  | Literal string

definition MAXREPEAT :: int where
  "MAXREPEAT = 4294967295"

definition re_compile :: "int \<Rightarrow> int \<Rightarrow> failure + regexp" where
  "re_compile lo hi =
     (if lo < 0 \<or> hi < 0
      then Inr (Literal (''{'' @ str_int lo @ '','' @ str_int hi @ ''}''))
      else if MAXREPEAT \<le> lo \<or> MAXREPEAT \<le> hi then Inl OverflowError
      else if hi < lo then Inl RegexError
      else Inr (Repeat (nat lo) (nat hi)))"

fun body_match :: "(char \<Rightarrow> bool) \<Rightarrow> regexp \<Rightarrow> string \<Rightarrow> bool" where
  "body_match valid_chars (Repeat lo hi) s =
     (lo \<le> length s \<and> length s \<le> hi \<and> list_all valid_chars s)"
| "body_match valid_chars (Literal t) s =
     (case s of [] \<Rightarrow> False | c # r \<Rightarrow> valid_chars c \<and> r = t)"

definition re_match :: "(char \<Rightarrow> bool) \<Rightarrow> regexp \<Rightarrow> string \<Rightarrow> bool" where
  "re_match valid_chars r s =
     (body_match valid_chars r s \<or>
      (s \<noteq> [] \<and> last s = CHR 0x0A \<and> body_match valid_chars r (butlast s)))"

section \<open>The wordlist filter\<close>

text \<open>
  \<^verbatim>\<open>generate_wordlist\<close> (lines 112 to 138). The file is given by its lines as the loop
  reads them, or \<open>None\<close> when \<^verbatim>\<open>locate_wordfile\<close> finds no file, and then \<^verbatim>\<open>open(None)\<close>
  raises \<^verbatim>\<open>TypeError\<close>. The set \<^verbatim>\<open>words\<close> is kept as the list of its elements in the
  order of their first insertion; Python leaves the order of \<^verbatim>\<open>list(words)\<close> open, and no
  statement below depends on it.
\<close>

definition set_add :: "string list \<Rightarrow> string \<Rightarrow> string list" where
  "set_add words w = (if w \<in> set words then words else words @ [w])"

definition read_words :: "(char \<Rightarrow> bool) \<Rightarrow> regexp \<Rightarrow> string list \<Rightarrow> string list" where
  "read_words valid_chars r wlf =
     foldl (\<lambda>words line.
        let thisword = str_strip line
        in if re_match valid_chars r thisword then set_add words thisword else words) [] wlf"

definition generate_wordlist ::
  "string list option \<Rightarrow> int \<Rightarrow> int \<Rightarrow> (char \<Rightarrow> bool) \<Rightarrow> failure + string list" where
  "generate_wordlist wordfile min_length max_length valid_chars =
     (let max_length = (if min_length > max_length then min_length else max_length)
      in case re_compile min_length max_length of
           Inl e \<Rightarrow> Inl e
         | Inr r \<Rightarrow>
             (case wordfile of
                None \<Rightarrow> Inl TypeError
              | Some wlf \<Rightarrow> Inr (read_words valid_chars r wlf)))"

text \<open>The default \<^verbatim>\<open>valid_chars='.'\<close>.\<close>

definition any_char :: "char \<Rightarrow> bool" where
  "any_char c = (c \<noteq> CHR 0x0A)"

section \<open>The acrostic index\<close>

text \<open>
  \<^verbatim>\<open>wordlist_to_worddict\<close> (lines 141 to 156). The dictionary is a map from the first
  character to the bucket. \<^verbatim>\<open>word[0]\<close> raises \<^verbatim>\<open>IndexError\<close> on the empty word, which the
  handler for \<^verbatim>\<open>KeyError\<close> does not catch.
\<close>

type_synonym worddict = "char \<rightharpoonup> string list"

fun worddict_loop :: "string list \<Rightarrow> worddict \<Rightarrow> failure + worddict" where
  "worddict_loop [] worddict = Inr worddict"
| "worddict_loop (word # rest) worddict =
     (case word of
        [] \<Rightarrow> Inl IndexError
      | c # _ \<Rightarrow>
          (case worddict c of
             Some bucket \<Rightarrow> worddict_loop rest (worddict(c \<mapsto> bucket @ [word]))
           | None \<Rightarrow> worddict_loop rest (worddict(c \<mapsto> [word]))))"

definition wordlist_to_worddict :: "string list \<Rightarrow> failure + worddict" where
  "wordlist_to_worddict wordlist = worddict_loop wordlist Map.empty"

section \<open>Random sources\<close>

text \<open>
  A generator is the sequence of raw numbers it will produce and the count of those already
  drawn. \<^verbatim>\<open>_randbelow(n)\<close> reduces the next raw number below \<open>n\<close>; which numbers are likely
  is not modelled, only which are possible. \<^verbatim>\<open>choice\<close> raises \<^verbatim>\<open>IndexError\<close> on an empty
  sequence and draws nothing then. \<^verbatim>\<open>randint\<close> is used with constant bounds \<open>a \<le> b\<close> only.
\<close>

record generator =
  outputs :: "nat \<Rightarrow> nat"
  drawn :: nat

definition randbelow :: "nat \<Rightarrow> generator \<Rightarrow> nat \<times> generator" where
  "randbelow n g = (outputs g (drawn g) mod n, g\<lparr>drawn := Suc (drawn g)\<rparr>)"

definition choice :: "'a list \<Rightarrow> generator \<Rightarrow> (failure + 'a) \<times> generator" where
  "choice seq g =
     (if seq = [] then (Inl IndexError, g)
      else case randbelow (length seq) g of (i, g') \<Rightarrow> (Inr (seq ! i), g'))"

definition randint :: "int \<Rightarrow> int \<Rightarrow> generator \<Rightarrow> int \<times> generator" where
  "randint a b g = (case randbelow (nat (b - a + 1)) g of (k, g') \<Rightarrow> (a + int k, g'))"

text \<open>
  The state outside the program's own values: what \<^verbatim>\<open>random.SystemRandom\<close> reads from the
  operating system, what an instance of \<^verbatim>\<open>random.Random\<close> made by \<^verbatim>\<open>rng()\<close> produces, the
  hidden Mersenne Twister instance behind the module's functions \<^verbatim>\<open>random.randint\<close>,
  \<^verbatim>\<open>random.choice\<close> and \<^verbatim>\<open>random.seed\<close>, the sequence that instance produces once seeded
  with a text, and what has been written to the diagnostic output and to the standard
  output. Printed text is a list of pieces: a piece is literal text, or a float formatted
  with two decimals (\<^verbatim>\<open>{:.2f}\<close>), which is kept as the number it prints.
\<close>

datatype piece = Text string | Float2 real

record world =
  system_random :: generator
  weak_random :: generator
  module_random :: generator
  seeding :: "string \<Rightarrow> nat \<Rightarrow> nat"
  stderr :: string
  stdout :: "piece list"

text \<open>
  The class bound to the global \<^verbatim>\<open>rng\<close> when the module is loaded (lines 43 to 55):
  \<^verbatim>\<open>random.SystemRandom\<close> where it exists, \<^verbatim>\<open>random.Random\<close> after a warning when it does
  not and the weak generator is allowed, and the \<^verbatim>\<open>AttributeError\<close> raised again otherwise.
\<close>

datatype rng_class = SystemRandom | WeakRandom

definition weak_warning :: string where
  "weak_warning = ''WARNING: System does not support cryptographically secure random number generator or you are using Python version < 2.4.\<newline>''"

definition select_rng :: "bool \<Rightarrow> bool \<Rightarrow> world \<Rightarrow> (failure + rng_class) \<times> world" where
  "select_rng has_system_random allow_weak w =
     (if has_system_random then (Inr SystemRandom, w)
      else if allow_weak
      then (Inr WeakRandom,
            w\<lparr>stderr := stderr w @ weak_warning @ ''Continuing with less-secure generator.\<newline>''\<rparr>)
      else (Inl AttributeError, w\<lparr>stderr := stderr w @ weak_warning\<rparr>))"

text \<open>\<^verbatim>\<open>rng().choice(seq)\<close>.\<close>

definition rng_choice :: "rng_class \<Rightarrow> 'a list \<Rightarrow> world \<Rightarrow> (failure + 'a) \<times> world" where
  "rng_choice rng seq w =
     (case rng of
        SystemRandom \<Rightarrow>
          (case choice seq (system_random w) of (r, g) \<Rightarrow> (r, w\<lparr>system_random := g\<rparr>))
      | WeakRandom \<Rightarrow>
          (case choice seq (weak_random w) of (r, g) \<Rightarrow> (r, w\<lparr>weak_random := g\<rparr>)))"

text \<open>\<^verbatim>\<open>random.seed(a)\<close>, \<^verbatim>\<open>random.choice(seq)\<close> and \<^verbatim>\<open>random.randint(a, b)\<close>.\<close>

definition random_seed :: "string \<Rightarrow> world \<Rightarrow> world" where
  "random_seed a w = w\<lparr>module_random := \<lparr>outputs = seeding w a, drawn = 0\<rparr>\<rparr>"

definition random_choice :: "'a list \<Rightarrow> world \<Rightarrow> (failure + 'a) \<times> world" where
  "random_choice seq w =
     (case choice seq (module_random w) of (r, g) \<Rightarrow> (r, w\<lparr>module_random := g\<rparr>))"

definition random_randint :: "int \<Rightarrow> int \<Rightarrow> world \<Rightarrow> int \<times> world" where
  "random_randint a b w =
     (case randint a b (module_random w) of (k, g) \<Rightarrow> (k, w\<lparr>module_random := g\<rparr>))"

text \<open>
  A list comprehension whose element expression draws random numbers: the elements are
  computed from left to right, and an exception ends the comprehension.
\<close>

fun comprehension ::
  "('a \<Rightarrow> world \<Rightarrow> (failure + 'b) \<times> world) \<Rightarrow> 'a list \<Rightarrow> world \<Rightarrow> (failure + 'b list) \<times> world" where
  "comprehension f [] w = (Inr [], w)"
| "comprehension f (x # xs) w =
     (case f x w of
        (Inl e, w1) \<Rightarrow> (Inl e, w1)
      | (Inr y, w1) \<Rightarrow>
          (case comprehension f xs w1 of
             (Inl e, w2) \<Rightarrow> (Inl e, w2)
           | (Inr ys, w2) \<Rightarrow> (Inr (y # ys), w2)))"

section \<open>The selector\<close>

text \<open>
  \<^verbatim>\<open>find_acrostic\<close> (lines 185 to 200). A letter without a bucket raises \<^verbatim>\<open>KeyError\<close>, whose
  handler writes the message and calls \<^verbatim>\<open>sys.exit(1)\<close>.
\<close>

fun find_acrostic_loop ::
  "rng_class \<Rightarrow> string \<Rightarrow> worddict \<Rightarrow> string list \<Rightarrow> world \<Rightarrow> (failure + string list) \<times> world" where
  "find_acrostic_loop rng [] worddict words w = (Inr words, w)"
| "find_acrostic_loop rng (letter # rest) worddict words w =
     (case worddict letter of
        None \<Rightarrow>
          (Inl (SystemExit 1),
           w\<lparr>stderr := stderr w @ ''No words found starting with '' @ [letter] @ ''\<newline>''\<rparr>)
      | Some bucket \<Rightarrow>
          (case rng_choice rng bucket w of
             (Inl e, w1) \<Rightarrow> (Inl e, w1)
           | (Inr word, w1) \<Rightarrow> find_acrostic_loop rng rest worddict (words @ [word]) w1))"

definition find_acrostic ::
  "rng_class \<Rightarrow> string \<Rightarrow> worddict \<Rightarrow> world \<Rightarrow> (failure + string list) \<times> world" where
  "find_acrostic rng acrostic worddict w = find_acrostic_loop rng acrostic worddict [] w"

text \<open>\<^verbatim>\<open>choose_words\<close> (lines 203 to 208); \<^verbatim>\<open>xrange\<close> of a negative number is empty.\<close>

definition xrange :: "int \<Rightarrow> nat list" where
  "xrange n = [0..<nat n]"

definition choose_words ::
  "rng_class \<Rightarrow> string list \<Rightarrow> int \<Rightarrow> world \<Rightarrow> (failure + string list) \<times> world" where
  "choose_words rng wordlist numwords w =
     comprehension (\<lambda>i. rng_choice rng wordlist) (xrange numwords) w"

section \<open>The case transformer\<close>

text \<open>The seven functions of lines 228 to 283, the table \<^verbatim>\<open>CASE_METHODS\<close> and \<^verbatim>\<open>set_case\<close>.\<close>

definition lower_case :: "string list \<Rightarrow> string list" where
  "lower_case words = map str_lower words"

definition upper_case :: "string list \<Rightarrow> string list" where
  "upper_case words = map str_upper words"

definition first_upper_case :: "string list \<Rightarrow> string list" where
  "first_upper_case words = map str_capitalize words"

definition capitalize_case :: "string list \<Rightarrow> string list" where
  "capitalize_case words = map str_capitalize words"

definition sentence_case :: "string list \<Rightarrow> string list" where
  "sentence_case words =
     map (\<lambda>(i, w). if i = 0 then str_capitalize w else w) (enumerate 0 words)"

definition alternating_case :: "string list \<Rightarrow> string list" where
  "alternating_case words =
     map (\<lambda>(i, word). if i mod 2 = 0 then str_upper word else word)
       (enumerate 0 (lower_case words))"

definition make_upper :: "bool \<Rightarrow> string \<Rightarrow> world \<Rightarrow> (failure + string) \<times> world" where
  "make_upper testing word w =
     (let w1 = (if testing then random_seed word w else w)
      in case random_choice [True, False] w1 of
           (Inl e, w2) \<Rightarrow> (Inl e, w2)
         | (Inr b, w2) \<Rightarrow> (Inr (if b then str_upper word else word), w2))"

definition random_case ::
  "string list \<Rightarrow> bool \<Rightarrow> world \<Rightarrow> (failure + string list) \<times> world" where
  "random_case words testing w = comprehension (make_upper testing) (lower_case words) w"

definition CASE_METHODS ::
  "string \<Rightarrow> (string list \<Rightarrow> world \<Rightarrow> (failure + string list) \<times> world) option" where
  "CASE_METHODS name =
     (if name = ''sentence'' then Some (\<lambda>words w. (Inr (sentence_case words), w))
      else if name = ''alternating'' then Some (\<lambda>words w. (Inr (alternating_case words), w))
      else if name = ''upper'' then Some (\<lambda>words w. (Inr (upper_case words), w))
      else if name = ''lower'' then Some (\<lambda>words w. (Inr (lower_case words), w))
      else if name = ''random'' then Some (\<lambda>words w. random_case words False w)
      else if name = ''first'' then Some (\<lambda>words w. (Inr (first_upper_case words), w))
      else if name = ''capitalize'' then Some (\<lambda>words w. (Inr (capitalize_case words), w))
      else None)"

definition set_case ::
  "string list \<Rightarrow> string \<Rightarrow> bool \<Rightarrow> world \<Rightarrow> (failure + string list) \<times> world" where
  "set_case words method testing w =
     (if method = ''random'' \<and> testing then random_case words True w
      else case CASE_METHODS method of
             None \<Rightarrow> (Inl KeyError, w)
           | Some f \<Rightarrow> f words w)"

section \<open>The passphrase assembler\<close>

text \<open>
  \<^verbatim>\<open>gen_passwd\<close> (lines 337 to 357), the closure of \<^verbatim>\<open>generate_xkcdpassword\<close>, with the
  variables it reads from the enclosing call as arguments. The argument \<^verbatim>\<open>acrostic\<close> is
  \<open>None\<close> for the default \<^verbatim>\<open>False\<close>; \<^verbatim>\<open>False\<close> and the empty text select plain mode.
  \<^verbatim>\<open>range\<close> of a negative number is empty.
\<close>

definition ALLOWED_SYMBOLS :: string where
  "ALLOWED_SYMBOLS = ''!#$%&()*+,-.:;<=>?@[]^_{|}~''"

definition truthy :: "string option \<Rightarrow> bool" where
  "truthy acrostic = (case acrostic of None \<Rightarrow> False | Some a \<Rightarrow> a \<noteq> [])"

fun digits_loop :: "nat \<Rightarrow> string \<Rightarrow> world \<Rightarrow> string \<times> world" where
  "digits_loop 0 digits w = (digits, w)"
| "digits_loop (Suc n) digits w =
     (case random_randint 0 9 w of (d, w1) \<Rightarrow> digits_loop n (digits @ str_int d) w1)"

fun symbols_loop :: "nat \<Rightarrow> string \<Rightarrow> world \<Rightarrow> string \<times> world" where
  "symbols_loop 0 symbols w = (symbols, w)"
| "symbols_loop (Suc n) symbols w =
     (case random_randint 0 (int (length ALLOWED_SYMBOLS) - 1) w of
        (i, w1) \<Rightarrow> symbols_loop n (symbols @ [ALLOWED_SYMBOLS ! nat i]) w1)"

definition gen_passwd ::
  "rng_class \<Rightarrow> string list \<Rightarrow> int \<Rightarrow> string option \<Rightarrow> worddict \<Rightarrow> string \<Rightarrow> string \<Rightarrow>
     int \<Rightarrow> int \<Rightarrow> world \<Rightarrow> (failure + string) \<times> world" where
  "gen_passwd rng wordlist numwords acrostic worddict delimiter case_name num_digits num_symbols w =
     (case (case acrostic of
              None \<Rightarrow> choose_words rng wordlist numwords w
            | Some a \<Rightarrow>
                if a = [] then choose_words rng wordlist numwords w
                else find_acrostic rng a worddict w) of
        (Inl e, w1) \<Rightarrow> (Inl e, w1)
      | (Inr words, w1) \<Rightarrow>
          (case set_case words case_name False w1 of
             (Inl e, w2) \<Rightarrow> (Inl e, w2)
           | (Inr cased, w2) \<Rightarrow>
               (let pw = str_join delimiter cased;
                    (digits, w3) =
                      (if num_digits \<noteq> 0 then digits_loop (nat num_digits) [] w2 else ([], w2));
                    (symbols, w4) =
                      (if num_symbols \<noteq> 0 then symbols_loop (nat num_symbols) [] w3 else ([], w3))
                in (Inr (pw @ digits @ symbols), w4))))"

text \<open>
  \<^verbatim>\<open>generate_xkcdpassword\<close> (lines 319 to 378) without the interactive loop: the index is
  built when an acrostic is asked for, then \<^verbatim>\<open>gen_passwd\<close> runs once.
\<close>

definition generate_xkcdpassword ::
  "rng_class \<Rightarrow> string list \<Rightarrow> int \<Rightarrow> string option \<Rightarrow> string \<Rightarrow> string \<Rightarrow>
     int \<Rightarrow> int \<Rightarrow> world \<Rightarrow> (failure + string) \<times> world" where
  "generate_xkcdpassword rng wordlist numwords acrostic delimiter case_name num_digits num_symbols w =
     (if truthy acrostic
      then case wordlist_to_worddict wordlist of
             Inl e \<Rightarrow> (Inl e, w)
           | Inr worddict \<Rightarrow>
               gen_passwd rng wordlist numwords acrostic worddict delimiter case_name
                 num_digits num_symbols w
      else gen_passwd rng wordlist numwords acrostic Map.empty delimiter case_name
             num_digits num_symbols w)"

section \<open>The entropy reporter\<close>

subsection \<open>Floats\<close>

text \<open>
  A Python float is an IEEE 754 double: a finite one is given by its value, and an operation
  whose rounded result is \<open>2 ^ 1024\<close> or more in magnitude gives an infinity.
  \<open>double_nearest\<close> rounds a real to the nearest double of unbounded exponent, ties to the
  even significand: around \<open>x\<close> the doubles are the multiples of \<open>double_ulp x\<close>, which is \<open>2\<close>
  to the exponent of \<open>x\<close>, not below \<open>- 1022\<close>, less \<open>52\<close>. The sign of a zero is not kept;
  the program never shows it.
  \<^item> \<^verbatim>\<open>bits * numwords\<close> first converts the integer to a float, which raises \<^verbatim>\<open>OverflowError\<close>
    (int too large to convert to float) from \<open>2 ^ 1024 - 2 ^ 970\<close> on in magnitude, the
    least integer that rounds to \<open>2 ^ 1024\<close>, and gives the nearest double below that. It
    then multiplies the two finite floats with one rounding.
  \<^item> \<^verbatim>\<open>int\<close> of a float cuts toward zero, and raises \<^verbatim>\<open>OverflowError\<close> on an infinity.
  \<^item> \<^verbatim>\<open>math.log(x, 2)\<close> raises \<^verbatim>\<open>ValueError\<close> (math domain error) at \<open>x = 0\<close>. Elsewhere it is
    the quotient of the C library's \<^verbatim>\<open>log(x)\<close> and \<^verbatim>\<open>log(2)\<close>. At \<open>x = 1\<close> the C library
    returns zero exactly, so the quotient is \<open>0.0\<close>. For a larger \<open>x\<close> the last bit of the
    result depends on the C library, and the result is given by the argument \<open>libm_log2\<close>.
\<close>

datatype pyfloat = Finite real | Infinity

definition round_half_even :: "real \<Rightarrow> int" where
  "round_half_even y =
     (let f = \<lfloor>y\<rfloor>
      in if y - of_int f < 1 / 2 then f
         else if 1 / 2 < y - of_int f then f + 1
         else if even f then f else f + 1)"

definition double_ulp :: "real \<Rightarrow> real" where
  "double_ulp x = 2 powr (of_int (max \<lfloor>log 2 \<bar>x\<bar>\<rfloor> (- 1022)) - 52)"

definition double_nearest :: "real \<Rightarrow> real" where
  "double_nearest x =
     (if x = 0 then 0 else of_int (round_half_even (x / double_ulp x)) * double_ulp x)"

definition double_round :: "real \<Rightarrow> pyfloat" where
  "double_round x =
     (let r = double_nearest x in if 2 ^ 1024 \<le> \<bar>r\<bar> then Infinity else Finite r)"

definition FLOAT_INT_LIMIT :: int where
  "FLOAT_INT_LIMIT = 2 ^ 1024 - 2 ^ 970"

definition float_of_int :: "int \<Rightarrow> failure + real" where
  "float_of_int n =
     (if FLOAT_INT_LIMIT \<le> \<bar>n\<bar> then Inl OverflowError else Inr (double_nearest (of_int n)))"

definition float_mul :: "real \<Rightarrow> real \<Rightarrow> pyfloat" where
  "float_mul x y = double_round (x * y)"

definition py_int :: "real \<Rightarrow> int" where
  "py_int x = (if 0 \<le> x then \<lfloor>x\<rfloor> else \<lceil>x\<rceil>)"

definition int_of_float :: "pyfloat \<Rightarrow> failure + int" where
  "int_of_float a = (case a of Infinity \<Rightarrow> Inl OverflowError | Finite x \<Rightarrow> Inr (py_int x))"

definition math_log2 :: "(nat \<Rightarrow> real) \<Rightarrow> nat \<Rightarrow> failure + real" where
  "math_log2 libm_log2 x =
     (if x = 0 then Inl ValueError else if x = 1 then Inr 0 else Inr (libm_log2 x))"

subsection \<open>The report\<close>

text \<open>
  \<^verbatim>\<open>verbose_reports\<close> (lines 159 to 182). \<open>pool_size\<close> is its first part, which sets \<^verbatim>\<open>length\<close>
  and \<^verbatim>\<open>numwords\<close> in either mode. The logarithm is taken before anything is printed; the
  first line is printed before the arguments of the second are computed. \<^verbatim>\<open>print\<close> ends
  what it writes with a newline.
\<close>

record options =
  opt_acrostic :: "string option"
  opt_numwords :: int

definition py_print :: "piece list \<Rightarrow> world \<Rightarrow> world" where
  "py_print pieces w = w\<lparr>stdout := stdout w @ pieces @ [Text ''\<newline>'']\<rparr>"

definition bucket_total :: "worddict \<Rightarrow> string \<Rightarrow> nat" where
  "bucket_total worddict acrostic =
     foldl (\<lambda>n char. n + (case worddict char of None \<Rightarrow> 0 | Some bucket \<Rightarrow> length bucket))
       0 acrostic"

definition pool_size :: "string list \<Rightarrow> options \<Rightarrow> failure + nat \<times> int" where
  "pool_size wordlist opts =
     (case opt_acrostic opts of
        None \<Rightarrow> Inr (length wordlist, opt_numwords opts)
      | Some acrostic \<Rightarrow>
          if acrostic = [] then Inr (length wordlist, opt_numwords opts)
          else case wordlist_to_worddict wordlist of
                 Inl e \<Rightarrow> Inl e
               | Inr worddict \<Rightarrow>
                   Inr (bucket_total worddict acrostic, int (length acrostic)))"

definition verbose_reports ::
  "(nat \<Rightarrow> real) \<Rightarrow> string list \<Rightarrow> options \<Rightarrow> world \<Rightarrow> (failure + unit) \<times> world" where
  "verbose_reports libm_log2 wordlist opts w =
     (case pool_size wordlist opts of
        Inl e \<Rightarrow> (Inl e, w)
      | Inr (n, numwords) \<Rightarrow>
          (case math_log2 libm_log2 n of
             Inl e \<Rightarrow> (Inl e, w)
           | Inr bits \<Rightarrow>
               (let w1 = py_print
                      [Text (''With the current options, your word list contains '' @
                             str_int (int n) @ '' words.'')] w
                in case float_of_int numwords of
                     Inl e \<Rightarrow> (Inl e, w1)
                   | Inr f \<Rightarrow>
                       (case int_of_float (float_mul bits f) of
                          Inl e \<Rightarrow> (Inl e, w1)
                        | Inr entropy \<Rightarrow>
                            (let w2 = py_print
                                   [Text (''A '' @ str_int numwords @
                                          '' word password from this list will have roughly '' @
                                          str_int entropy @ '' (''),
                                    Float2 bits,
                                    Text ('' * '' @ str_int numwords @ '') bits of entropy,'')] w1;
                                 w3 = py_print
                                   [Text ''assuming truly random word selection.\<newline>''] w2
                             in (Inr (), w3))))))"

section \<open>An example state\<close>

text \<open>
  A state for running the program on concrete inputs: the secure source and the instances
  of \<^verbatim>\<open>random.Random\<close> produce 0, 1, 2 and so on, the hidden generator produces 1, 2 and
  then 0, a generator seeded with a text produces the length of the text first, and nothing
  has been written yet.
\<close>

definition example_world :: world where
  "example_world =
     \<lparr>system_random = \<lparr>outputs = (\<lambda>i. i), drawn = 0\<rparr>,
      weak_random = \<lparr>outputs = (\<lambda>i. i), drawn = 0\<rparr>,
      module_random = \<lparr>outputs = (\<lambda>i. if i < 2 then Suc i else 0), drawn = 0\<rparr>,
      seeding = (\<lambda>a i. length a + i),
      stderr = [],
      stdout = []\<rparr>"

section \<open>Properties of the wordlist filter\<close>

text \<open>
  A stripped line never ends in a newline, so on the words the filter tests \<^verbatim>\<open>$\<close> only
  matches at the end of the text.
\<close>

lemma isspace_newline: "isspace (CHR 0x0A)"
  by (simp add: isspace_def whitespace_def)

lemma str_strip_last: "str_strip s \<noteq> [] \<Longrightarrow> \<not> isspace (last (str_strip s))"
  unfolding str_strip_def
  by (metis Nil_is_rev_conv hd_dropWhile last_rev)

lemma re_match_stripped: "re_match valid_chars r (str_strip s) = body_match valid_chars r (str_strip s)"
  using str_strip_last [of s] isspace_newline
  by (auto simp: re_match_def)

lemma set_add_set: "set (set_add words w) = insert w (set words)"
  by (auto simp: set_add_def)

lemma set_add_distinct: "distinct words \<Longrightarrow> distinct (set_add words w)"
  by (simp add: set_add_def)

lemma read_loop_set:
  "set (foldl (\<lambda>words line. let thisword = str_strip line
        in if re_match valid_chars r thisword then set_add words thisword else words) acc wlf)
   = set acc \<union> {word \<in> str_strip ` set wlf. body_match valid_chars r word}"
  by (induction wlf arbitrary: acc) (auto simp: Let_def set_add_set re_match_stripped)

lemma read_loop_distinct:
  "distinct acc \<Longrightarrow> distinct (foldl (\<lambda>words line. let thisword = str_strip line
        in if re_match valid_chars r thisword then set_add words thisword else words) acc wlf)"
  by (induction wlf arbitrary: acc) (auto simp: Let_def set_add_distinct)

lemma read_words_set:
  "set (read_words valid_chars r wlf) = {word \<in> str_strip ` set wlf. body_match valid_chars r word}"
  by (simp add: read_words_def read_loop_set)

lemma read_words_distinct: "distinct (read_words valid_chars r wlf)"
  by (simp add: read_words_def read_loop_distinct)

lemma generate_wordlist_bounded:
  assumes "0 \<le> min_length" and "min_length \<le> max_length"
  shows "generate_wordlist (Some wlf) min_length max_length valid_chars =
    (if MAXREPEAT \<le> max_length then Inl OverflowError
     else Inr (read_words valid_chars (Repeat (nat min_length) (nat max_length)) wlf))"
  using assms by (auto simp: generate_wordlist_def re_compile_def)

text \<open>
  Claim C1, as amended. Let the minimum length be non-negative and the maximum length be at
  least the minimum. Then the list that \<^verbatim>\<open>generate_wordlist\<close> returns has no duplicates, and
  its words are exactly the lines of the source, surrounding whitespace removed, whose length
  lies between the minimum and the maximum inclusive and whose characters are all allowed
  by the pattern.
\<close>

theorem generate_wordlist_filtered:
  assumes "0 \<le> min_length" and "min_length \<le> max_length"
    and "generate_wordlist (Some wlf) min_length max_length valid_chars = Inr wordlist"
  shows "distinct wordlist \<and>
         set wordlist = {word \<in> str_strip ` set wlf.
            min_length \<le> int (length word) \<and> int (length word) \<le> max_length \<and>
            list_all valid_chars word}"
proof -
  from assms have w: "wordlist = read_words valid_chars (Repeat (nat min_length) (nat max_length)) wlf"
    by (simp add: generate_wordlist_bounded split: if_splits)
  have "\<And>word. body_match valid_chars (Repeat (nat min_length) (nat max_length)) word =
      (min_length \<le> int (length word) \<and> int (length word) \<le> max_length \<and> list_all valid_chars word)"
    using assms(1,2) by auto
  then show ?thesis
    unfolding w by (simp add: read_words_distinct read_words_set)
qed


text \<open>
  The theorem at a source of six lines with bounds 3 and 5 and the lower-case letters as the
  pattern: the call returns, and the duplicate, the line with a digit and the long line are
  left out.
\<close>

theorem generate_wordlist_filtered_witness:
  "generate_wordlist
     (Some [''apple\<newline>'', ''ant\<newline>'', '' bee \<newline>'', ''ant\<newline>'', ''a1\<newline>'', ''elephant\<newline>''])
     3 5 (\<lambda>c. c \<in> set ascii_lowercase) = Inr [''apple'', ''ant'', ''bee''] \<and>
   (distinct [''apple'', ''ant'', ''bee''] \<and>
    set [''apple'', ''ant'', ''bee''] =
      {word \<in> str_strip ` set [''apple\<newline>'', ''ant\<newline>'', '' bee \<newline>'', ''ant\<newline>'', ''a1\<newline>'', ''elephant\<newline>''].
         3 \<le> int (length word) \<and> int (length word) \<le> 5 \<and>
         list_all (\<lambda>c. c \<in> set ascii_lowercase) word})"
proof -
  have h1: "(0::int) \<le> 3" and h2: "(3::int) \<le> 5"
    by simp_all
  have r: "generate_wordlist
     (Some [''apple\<newline>'', ''ant\<newline>'', '' bee \<newline>'', ''ant\<newline>'', ''a1\<newline>'', ''elephant\<newline>''])
     3 5 (\<lambda>c. c \<in> set ascii_lowercase) = Inr [''apple'', ''ant'', ''bee'']"
    by (simp add: generate_wordlist_def re_compile_def MAXREPEAT_def read_words_def
        str_strip_def isspace_def whitespace_def re_match_def set_add_def ascii_lowercase_def)
  show ?thesis
    by (rule conjI [OF r generate_wordlist_filtered [OF h1 h2 r]])
qed

text \<open>
  Claim C1 as stated, for every minimum and maximum with \<open>min \<le> max\<close>, fails at a negative
  minimum. With \<^verbatim>\<open>min_length=-1\<close> and \<^verbatim>\<open>max_length=5\<close> the expression is \<^verbatim>\<open>^.{-1,5}$\<close>, whose braces
  are literal text: the line \<^verbatim>\<open>a{-1,5}\<close> is accepted, a word of seven characters, longer than
  the maximum, and with the pattern \<^verbatim>\<open>[a-z]\<close> a word of characters the pattern does not allow.
\<close>

theorem generate_wordlist_negative_minimum:
  "(- 1 :: int) \<le> 5 \<and>
   generate_wordlist (Some [''a{-1,5}\<newline>'']) (- 1) 5 any_char = Inr [''a{-1,5}''] \<and>
   length ''a{-1,5}'' = 7 \<and> \<not> list_all (\<lambda>c. c \<in> set ascii_lowercase) ''a{-1,5}'' \<and>
   generate_wordlist (Some [''a{-1,5}\<newline>'']) (- 1) 5 (\<lambda>c. c \<in> set ascii_lowercase) = Inr [''a{-1,5}'']"
  by (simp add: generate_wordlist_def re_compile_def read_words_def str_int_def str_nat.simps
      digit_char_def str_strip_def isspace_def whitespace_def re_match_def any_char_def
      set_add_def ascii_lowercase_def)

subsection \<open>A minimum above the maximum\<close>

lemma generate_wordlist_max_raised:
  "max_length < min_length \<Longrightarrow>
   generate_wordlist wordfile min_length max_length valid_chars =
   generate_wordlist wordfile min_length min_length valid_chars"
  by (simp add: generate_wordlist_def)

text \<open>
  Claim C7, as amended. When the minimum length exceeds the maximum, the filter works with
  the maximum raised to the minimum and the minimum as given: the call equals the call with
  both bounds equal to the minimum. When the minimum is moreover non-negative, the accepted
  words are exactly the stripped lines of that length made of allowed characters.
\<close>

theorem generate_wordlist_effective_maximum:
  assumes "max_length < min_length"
  shows "generate_wordlist wordfile min_length max_length valid_chars =
           generate_wordlist wordfile min_length min_length valid_chars \<and>
         (0 \<le> min_length \<and>
          generate_wordlist (Some wlf) min_length max_length valid_chars = Inr wordlist \<longrightarrow>
            set wordlist = {word \<in> str_strip ` set wlf.
               int (length word) = min_length \<and> list_all valid_chars word})"
proof (intro conjI impI)
  show e: "generate_wordlist wordfile min_length max_length valid_chars =
           generate_wordlist wordfile min_length min_length valid_chars" for wordfile
    using assms by (rule generate_wordlist_max_raised)
  assume a: "0 \<le> min_length \<and>
    generate_wordlist (Some wlf) min_length max_length valid_chars = Inr wordlist"
  then have "generate_wordlist (Some wlf) min_length min_length valid_chars = Inr wordlist"
    using e by simp
  with a have w: "wordlist = read_words valid_chars (Repeat (nat min_length) (nat min_length)) wlf"
    by (simp add: generate_wordlist_bounded split: if_splits)
  have "\<And>word. body_match valid_chars (Repeat (nat min_length) (nat min_length)) word =
      (int (length word) = min_length \<and> list_all valid_chars word)"
    using a by auto
  then show "set wordlist = {word \<in> str_strip ` set wlf.
               int (length word) = min_length \<and> list_all valid_chars word}"
    unfolding w by (simp add: read_words_set)
qed

text \<open>
  The theorem at minimum 3 and maximum 2: the words of three characters are accepted, as
  with both bounds 3.
\<close>

theorem generate_wordlist_effective_maximum_witness:
  "(2::int) < 3 \<and>
   generate_wordlist (Some [''apple\<newline>'', ''ant\<newline>'', ''be\<newline>'', ''bee\<newline>'']) 3 2 any_char =
     Inr [''ant'', ''bee''] \<and>
   generate_wordlist (Some [''apple\<newline>'', ''ant\<newline>'', ''be\<newline>'', ''bee\<newline>'']) 3 3 any_char =
     Inr [''ant'', ''bee''] \<and>
   set [''ant'', ''bee''] =
     {word \<in> str_strip ` set [''apple\<newline>'', ''ant\<newline>'', ''be\<newline>'', ''bee\<newline>''].
        int (length word) = 3 \<and> list_all any_char word}"
proof -
  have h: "(2::int) < 3"
    by simp
  have r: "generate_wordlist (Some [''apple\<newline>'', ''ant\<newline>'', ''be\<newline>'', ''bee\<newline>'']) 3 2 any_char =
     Inr [''ant'', ''bee'']"
    by (simp add: generate_wordlist_def re_compile_def MAXREPEAT_def read_words_def
        str_strip_def isspace_def whitespace_def re_match_def set_add_def any_char_def)
  note t = generate_wordlist_effective_maximum [OF h,
      of "Some [''apple\<newline>'', ''ant\<newline>'', ''be\<newline>'', ''bee\<newline>'']" any_char
         "[''apple\<newline>'', ''ant\<newline>'', ''be\<newline>'', ''bee\<newline>'']" "[''ant'', ''bee'']"]
  from t have e: "generate_wordlist (Some [''apple\<newline>'', ''ant\<newline>'', ''be\<newline>'', ''bee\<newline>'']) 3 3 any_char =
     Inr [''ant'', ''bee'']"
    using r by simp
  have p: "(0::int) \<le> 3 \<and>
    generate_wordlist (Some [''apple\<newline>'', ''ant\<newline>'', ''be\<newline>'', ''bee\<newline>'']) 3 2 any_char =
     Inr [''ant'', ''bee'']"
    using r by simp
  have s: "set [''ant'', ''bee''] =
     {word \<in> str_strip ` set [''apple\<newline>'', ''ant\<newline>'', ''be\<newline>'', ''bee\<newline>''].
        int (length word) = 3 \<and> list_all any_char word}"
    by (rule mp [OF conjunct2 [OF t] p])
  show ?thesis
    by (intro conjI h r e s)
qed

text \<open>
  Claim C7 as stated, for every minimum above the maximum, fails in its last part at a
  negative minimum: with \<^verbatim>\<open>min_length=-1\<close> and \<^verbatim>\<open>max_length=-2\<close> the expression is
  \<^verbatim>\<open>^.{-1,-1}$\<close>, and the accepted word \<^verbatim>\<open>a{-1,-1}\<close> has eight characters, not the minimum.
\<close>

theorem generate_wordlist_negative_bounds:
  "(- 2 :: int) < - 1 \<and>
   generate_wordlist (Some [''a{-1,-1}\<newline>'', ''\<newline>'']) (- 1) (- 2) any_char = Inr [''a{-1,-1}''] \<and>
   int (length ''a{-1,-1}'') \<noteq> - 1"
  by (simp add: generate_wordlist_def re_compile_def read_words_def str_int_def str_nat.simps
      digit_char_def str_strip_def isspace_def whitespace_def re_match_def any_char_def
      set_add_def)

section \<open>Properties of the acrostic index\<close>

text \<open>
  The loop started from any dictionary: a word goes to the end of the bucket of its first
  character, and an empty word stops the loop with \<^verbatim>\<open>IndexError\<close>.
\<close>

lemma worddict_loop_buckets:
  "list_all (\<lambda>word. word \<noteq> []) wordlist \<Longrightarrow>
   worddict_loop wordlist worddict =
     Inr (\<lambda>c. case worddict c of
                 None \<Rightarrow> if filter (\<lambda>word. hd word = c) wordlist = [] then None
                         else Some (filter (\<lambda>word. hd word = c) wordlist)
               | Some bucket \<Rightarrow> Some (bucket @ filter (\<lambda>word. hd word = c) wordlist))"
proof (induction wordlist arbitrary: worddict)
  case Nil
  then show ?case by (auto simp: fun_eq_iff split: option.splits)
next
  case (Cons word rest)
  then obtain c cs where w: "word = c # cs"
    by (cases word) auto
  from Cons.prems have r: "list_all (\<lambda>word. word \<noteq> []) rest"
    by simp
  show ?case
    unfolding w
    by (cases "worddict c") (auto simp: Cons.IH [OF r] fun_eq_iff split: option.splits)
qed

lemma worddict_loop_empty_word:
  "[] \<in> set wordlist \<Longrightarrow> worddict_loop wordlist worddict = Inl IndexError"
proof (induction wordlist arbitrary: worddict)
  case Nil
  then show ?case by simp
next
  case (Cons word rest)
  show ?case
  proof (cases word)
    case Nil
    then show ?thesis by simp
  next
    case (Cons c cs)
    with Cons.prems have "[] \<in> set rest"
      by auto
    then show ?thesis
      by (simp add: Cons Cons.IH split: option.splits)
  qed
qed

lemma wordlist_to_worddict_total:
  "list_all (\<lambda>word. word \<noteq> []) wordlist \<Longrightarrow>
   wordlist_to_worddict wordlist =
     Inr (\<lambda>c. if filter (\<lambda>word. hd word = c) wordlist = [] then None
              else Some (filter (\<lambda>word. hd word = c) wordlist))"
  by (simp add: wordlist_to_worddict_def worddict_loop_buckets)

lemma wordlist_to_worddict_fails:
  "[] \<in> set wordlist \<Longrightarrow> wordlist_to_worddict wordlist = Inl IndexError"
  by (simp add: wordlist_to_worddict_def worddict_loop_empty_word)

lemma wordlist_to_worddict_Inr:
  assumes "wordlist_to_worddict wordlist = Inr worddict"
  shows "list_all (\<lambda>word. word \<noteq> []) wordlist"
    and "worddict = (\<lambda>c. if filter (\<lambda>word. hd word = c) wordlist = [] then None
              else Some (filter (\<lambda>word. hd word = c) wordlist))"
proof -
  have "[] \<notin> set wordlist"
    using assms wordlist_to_worddict_fails by fastforce
  then show n: "list_all (\<lambda>word. word \<noteq> []) wordlist"
    by (auto simp: list_all_iff)
  show "worddict = (\<lambda>c. if filter (\<lambda>word. hd word = c) wordlist = [] then None
              else Some (filter (\<lambda>word. hd word = c) wordlist))"
    using assms wordlist_to_worddict_total [OF n] by simp
qed

lemma generate_wordlist_empty_word:
  "0 \<le> max_length \<Longrightarrow> max_length < MAXREPEAT \<Longrightarrow>
   generate_wordlist (Some [''\<newline>'']) 0 max_length valid_chars = Inr [[]]"
  by (simp add: generate_wordlist_def re_compile_def MAXREPEAT_def read_words_def
      str_strip_def isspace_def whitespace_def re_match_def set_add_def)

text \<open>
  Claim C10. On a wordlist without an empty word \<^verbatim>\<open>wordlist_to_worddict\<close> returns, and the
  bucket of a character holds exactly the words that start with it, in the order of the
  wordlist; a character no word starts with has no bucket. So every word is in one bucket,
  the one of its first character. On a wordlist with an empty word the function raises
  \<^verbatim>\<open>IndexError\<close>, and the filter returns such a wordlist at minimum length zero from a source
  with an empty line.
\<close>

theorem wordlist_to_worddict_buckets:
  "(list_all (\<lambda>word. word \<noteq> []) wordlist \<longrightarrow>
      (\<exists>worddict. wordlist_to_worddict wordlist = Inr worddict \<and>
         (\<forall>c. worddict c =
            (if filter (\<lambda>word. hd word = c) wordlist = [] then None
             else Some (filter (\<lambda>word. hd word = c) wordlist))))) \<and>
   ([] \<in> set wordlist \<longrightarrow> wordlist_to_worddict wordlist = Inl IndexError) \<and>
   (0 \<le> max_length \<and> max_length < MAXREPEAT \<longrightarrow>
      generate_wordlist (Some [''\<newline>'']) 0 max_length valid_chars = Inr [[]])"
  by (simp add: wordlist_to_worddict_total wordlist_to_worddict_fails generate_wordlist_empty_word)


text \<open>
  The theorem at a wordlist of three words, at a wordlist with an empty word, and at the
  bounds 0 and 9.
\<close>

theorem wordlist_to_worddict_buckets_witness:
  "list_all (\<lambda>word. word \<noteq> []) [''apple'', ''bee'', ''ant''] \<and>
   (\<exists>worddict. wordlist_to_worddict [''apple'', ''bee'', ''ant''] = Inr worddict \<and>
      worddict CHR ''a'' = Some [''apple'', ''ant''] \<and> worddict CHR ''b'' = Some [''bee''] \<and>
      worddict CHR ''c'' = None) \<and>
   [] \<in> set [''apple'', []] \<and>
   wordlist_to_worddict [''apple'', []] = Inl IndexError \<and>
   (0::int) \<le> 9 \<and> 9 < MAXREPEAT \<and>
   generate_wordlist (Some [''\<newline>'']) 0 9 any_char = Inr [[]]"
proof -
  note t1 = wordlist_to_worddict_buckets [of "[''apple'', ''bee'', ''ant'']" 9 any_char]
  note t2 = wordlist_to_worddict_buckets [of "[''apple'', []]" 9 any_char]
  have h1: "list_all (\<lambda>word. word \<noteq> []) [''apple'', ''bee'', ''ant'']"
    by simp
  have h2: "[] \<in> set [''apple'', []]"
    by simp
  have h3: "(0::int) \<le> 9 \<and> 9 < MAXREPEAT"
    by (simp add: MAXREPEAT_def)
  from mp [OF conjunct1 [OF t1] h1]
  obtain worddict where d: "wordlist_to_worddict [''apple'', ''bee'', ''ant''] = Inr worddict"
    "\<forall>c. worddict c =
        (if filter (\<lambda>word. hd word = c) [''apple'', ''bee'', ''ant''] = [] then None
         else Some (filter (\<lambda>word. hd word = c) [''apple'', ''bee'', ''ant'']))"
    by blast
  have b: "\<exists>worddict. wordlist_to_worddict [''apple'', ''bee'', ''ant''] = Inr worddict \<and>
      worddict CHR ''a'' = Some [''apple'', ''ant''] \<and> worddict CHR ''b'' = Some [''bee''] \<and>
      worddict CHR ''c'' = None"
    using d by (intro exI [of _ worddict]) simp
  show ?thesis
    using h1 h2 h3 b mp [OF conjunct1 [OF conjunct2 [OF t2]] h2]
      mp [OF conjunct2 [OF conjunct2 [OF t1]] h3]
    by simp
qed

section \<open>Properties of the selector\<close>

lemma rng_choice_nonempty:
  "seq \<noteq> [] \<Longrightarrow>
   \<exists>x w'. rng_choice rng seq w = (Inr x, w') \<and> x \<in> set seq \<and> stderr w' = stderr w \<and>
      module_random w' = module_random w"
  by (cases rng) (simp_all add: rng_choice_def choice_def randbelow_def)

lemma comprehension_choice:
  "wordlist \<noteq> [] \<Longrightarrow>
   \<exists>words w'. comprehension (\<lambda>i. rng_choice rng wordlist) xs w = (Inr words, w') \<and>
      length words = length xs \<and> set words \<subseteq> set wordlist \<and> stderr w' = stderr w \<and>
      module_random w' = module_random w"
proof (induction xs arbitrary: w)
  case Nil
  then show ?case by simp
next
  case (Cons x xs)
  from rng_choice_nonempty [OF Cons.prems, of rng w]
  obtain y w1 where y: "rng_choice rng wordlist w = (Inr y, w1)" "y \<in> set wordlist"
    "stderr w1 = stderr w" "module_random w1 = module_random w"
    by blast
  from Cons.IH [OF Cons.prems, of w1]
  obtain ys w2 where ys: "comprehension (\<lambda>i. rng_choice rng wordlist) xs w1 = (Inr ys, w2)"
    "length ys = length xs" "set ys \<subseteq> set wordlist" "stderr w2 = stderr w1"
    "module_random w2 = module_random w1"
    by blast
  show ?case
    using y ys by simp
qed

text \<open>
  Claim C2. For a wordlist that is not empty and a natural number \<open>k\<close>, \<^verbatim>\<open>choose_words\<close>
  returns a list of exactly \<open>k\<close> words, each of them a member of the wordlist; for zero words
  it returns the empty list, whatever the wordlist, and draws nothing.
\<close>

theorem choose_words_exactly:
  "(wordlist \<noteq> [] \<longrightarrow>
      (\<exists>words w'. choose_words rng wordlist (int k) w = (Inr words, w') \<and>
         length words = k \<and> set words \<subseteq> set wordlist)) \<and>
   choose_words rng wordlist 0 w = (Inr [], w)"
proof (intro conjI impI)
  assume "wordlist \<noteq> []"
  from comprehension_choice [OF this, of rng "xrange (int k)" w]
  show "\<exists>words w'. choose_words rng wordlist (int k) w = (Inr words, w') \<and>
         length words = k \<and> set words \<subseteq> set wordlist"
    by (auto simp: choose_words_def xrange_def)
next
  show "choose_words rng wordlist 0 w = (Inr [], w)"
    by (simp add: choose_words_def xrange_def)
qed

text \<open>
  The theorem at a wordlist of two words and \<open>k = 3\<close>.
\<close>

theorem choose_words_exactly_witness:
  "[''foo'', ''bar''] \<noteq> [] \<and>
   (\<exists>words w'. choose_words SystemRandom [''foo'', ''bar''] (int 3) example_world = (Inr words, w') \<and>
      length words = 3 \<and> set words \<subseteq> set [''foo'', ''bar'']) \<and>
   choose_words SystemRandom [''foo'', ''bar''] 0 example_world = (Inr [], example_world) \<and>
   fst (choose_words SystemRandom [''foo'', ''bar''] (int 3) example_world) =
     Inr [''foo'', ''bar'', ''foo'']"
proof -
  note t = choose_words_exactly [of "[''foo'', ''bar'']" SystemRandom 3 example_world]
  have h: "[''foo'', ''bar''] \<noteq> []"
    by simp
  have e: "fst (choose_words SystemRandom [''foo'', ''bar''] (int 3) example_world) =
     Inr [''foo'', ''bar'', ''foo'']"
    by (simp add: choose_words_def xrange_def rng_choice_def choice_def randbelow_def
        example_world_def upt_rec mod_Suc)
  show ?thesis
    by (intro conjI h mp [OF conjunct1 [OF t] h] conjunct2 [OF t] e)
qed

text \<open>
  The loop of \<^verbatim>\<open>find_acrostic\<close> over a dictionary without an empty bucket.
\<close>

lemma find_acrostic_loop_found:
  assumes "list_all (\<lambda>c. worddict c \<noteq> None) acrostic"
    and "[] \<notin> ran worddict"
  shows "\<exists>found w'. find_acrostic_loop rng acrostic worddict words w = (Inr (words @ found), w') \<and>
      length found = length acrostic \<and>
      (\<forall>i<length acrostic. \<exists>bucket. worddict (acrostic ! i) = Some bucket \<and> found ! i \<in> set bucket) \<and>
      stderr w' = stderr w \<and> module_random w' = module_random w"
  using assms(1)
proof (induction acrostic arbitrary: words w)
  case Nil
  then show ?case by simp
next
  case (Cons letter rest)
  then obtain bucket where b: "worddict letter = Some bucket"
    by auto
  then have "bucket \<noteq> []"
    using assms(2) by (auto simp: ran_def)
  from rng_choice_nonempty [OF this, of rng w]
  obtain word w1 where c: "rng_choice rng bucket w = (Inr word, w1)" "word \<in> set bucket"
    "stderr w1 = stderr w" "module_random w1 = module_random w"
    by blast
  from Cons.prems have "list_all (\<lambda>c. worddict c \<noteq> None) rest"
    by simp
  from Cons.IH [OF this, of "words @ [word]" w1]
  obtain found w2 where f:
    "find_acrostic_loop rng rest worddict (words @ [word]) w1 = (Inr ((words @ [word]) @ found), w2)"
    "length found = length rest"
    "\<forall>i<length rest. \<exists>bucket. worddict (rest ! i) = Some bucket \<and> found ! i \<in> set bucket"
    "stderr w2 = stderr w1" "module_random w2 = module_random w1"
    by blast
  have "\<forall>i<length (letter # rest). \<exists>bucket. worddict ((letter # rest) ! i) = Some bucket \<and>
      (word # found) ! i \<in> set bucket"
    using b c(2) f(3) by (auto simp: nth_Cons split: nat.splits)
  then show ?case
    using b c f by (intro exI [of _ "word # found"] exI [of _ w2]) simp
qed

lemma find_acrostic_loop_missing:
  assumes "\<not> list_all (\<lambda>c. worddict c \<noteq> None) acrostic"
    and "[] \<notin> ran worddict"
  shows "\<exists>letter w'. find_acrostic_loop rng acrostic worddict words w = (Inl (SystemExit 1), w') \<and>
      letter \<in> set acrostic \<and> worddict letter = None \<and>
      stderr w' = stderr w @ ''No words found starting with '' @ [letter] @ ''\<newline>''"
  using assms(1)
proof (induction acrostic arbitrary: words w)
  case Nil
  then show ?case by simp
next
  case (Cons letter rest)
  show ?case
  proof (cases "worddict letter")
    case None
    then show ?thesis
      by (intro exI [of _ letter]) simp
  next
    case (Some bucket)
    then have "bucket \<noteq> []"
      using assms(2) by (auto simp: ran_def)
    from rng_choice_nonempty [OF this, of rng w]
    obtain word w1 where c: "rng_choice rng bucket w = (Inr word, w1)" "stderr w1 = stderr w"
      by blast
    from Cons.prems Some have "\<not> list_all (\<lambda>c. worddict c \<noteq> None) rest"
      by simp
    from Cons.IH [OF this, of "words @ [word]" w1]
    show ?thesis
      using Some c by auto
  qed
qed

text \<open>
  Claim C3. Let the dictionary be one that \<^verbatim>\<open>wordlist_to_worddict\<close> returned. If every
  character of the acrostic has a bucket, \<^verbatim>\<open>find_acrostic\<close> returns one word for each
  character of the acrostic, in order, the \<open>i\<close>-th a word of the wordlist that begins with
  the \<open>i\<close>-th character, and writes no diagnostic. If a character has no bucket, it returns
  no words: it writes \<^verbatim>\<open>No words found starting with\<close> and such a character to the
  diagnostic output and exits with status 1.
\<close>

theorem find_acrostic_words:
  assumes "wordlist_to_worddict wordlist = Inr worddict"
  shows "(list_all (\<lambda>c. worddict c \<noteq> None) acrostic \<longrightarrow>
           (\<exists>words w'. find_acrostic rng acrostic worddict w = (Inr words, w') \<and>
              length words = length acrostic \<and>
              (\<forall>i<length acrostic.
                 words ! i \<in> set wordlist \<and> words ! i \<noteq> [] \<and> hd (words ! i) = acrostic ! i) \<and>
              stderr w' = stderr w)) \<and>
         (\<not> list_all (\<lambda>c. worddict c \<noteq> None) acrostic \<longrightarrow>
           (\<exists>letter w'. find_acrostic rng acrostic worddict w = (Inl (SystemExit 1), w') \<and>
              letter \<in> set acrostic \<and> worddict letter = None \<and>
              stderr w' = stderr w @ ''No words found starting with '' @ [letter] @ ''\<newline>''))"
proof -
  note d = wordlist_to_worddict_Inr [OF assms]
  have ne: "[] \<notin> ran worddict"
    unfolding d(2) by (auto simp: ran_def split: if_splits)
  have mem: "word \<in> set wordlist \<and> word \<noteq> [] \<and> hd word = c"
    if "worddict c = Some bucket" "word \<in> set bucket" for c bucket word
    using that d(1) unfolding d(2) by (auto simp: list_all_iff split: if_splits)
  show ?thesis
  proof (intro conjI impI)
    assume "list_all (\<lambda>c. worddict c \<noteq> None) acrostic"
    from find_acrostic_loop_found [OF this ne, where rng = rng and words = "[]" and w = w]
    obtain found w' where f: "find_acrostic_loop rng acrostic worddict [] w = (Inr found, w')"
      "length found = length acrostic"
      "\<forall>i<length acrostic. \<exists>bucket. worddict (acrostic ! i) = Some bucket \<and> found ! i \<in> set bucket"
      "stderr w' = stderr w"
      by auto
    from f(3) mem have "\<forall>i<length acrostic.
        found ! i \<in> set wordlist \<and> found ! i \<noteq> [] \<and> hd (found ! i) = acrostic ! i"
      by blast
    with f show "\<exists>words w'. find_acrostic rng acrostic worddict w = (Inr words, w') \<and>
              length words = length acrostic \<and>
              (\<forall>i<length acrostic.
                 words ! i \<in> set wordlist \<and> words ! i \<noteq> [] \<and> hd (words ! i) = acrostic ! i) \<and>
              stderr w' = stderr w"
      by (auto simp: find_acrostic_def)
  next
    assume "\<not> list_all (\<lambda>c. worddict c \<noteq> None) acrostic"
    from find_acrostic_loop_missing [OF this ne, where rng = rng and words = "[]" and w = w]
    show "\<exists>letter w'. find_acrostic rng acrostic worddict w = (Inl (SystemExit 1), w') \<and>
              letter \<in> set acrostic \<and> worddict letter = None \<and>
              stderr w' = stderr w @ ''No words found starting with '' @ [letter] @ ''\<newline>''"
      by (simp add: find_acrostic_def)
  qed
qed

text \<open>
  The theorem at the wordlist apple, ant, bee with the acrostic \<^verbatim>\<open>ab\<close>, whose letters have
  buckets, and the acrostic \<^verbatim>\<open>bat\<close>, whose last letter has none.
\<close>

theorem find_acrostic_words_witness:
  "\<exists>worddict. wordlist_to_worddict [''apple'', ''ant'', ''bee''] = Inr worddict \<and>
     list_all (\<lambda>c. worddict c \<noteq> None) ''ab'' \<and>
     (\<exists>words w'. find_acrostic SystemRandom ''ab'' worddict example_world = (Inr words, w') \<and>
        length words = length ''ab'' \<and>
        (\<forall>i<length ''ab''.
           words ! i \<in> set [''apple'', ''ant'', ''bee''] \<and> words ! i \<noteq> [] \<and>
           hd (words ! i) = ''ab'' ! i) \<and>
        stderr w' = stderr example_world) \<and>
     \<not> list_all (\<lambda>c. worddict c \<noteq> None) ''bat'' \<and>
     (\<exists>letter w'. find_acrostic SystemRandom ''bat'' worddict example_world =
          (Inl (SystemExit 1), w') \<and>
        letter \<in> set ''bat'' \<and> worddict letter = None \<and>
        stderr w' = stderr example_world @ ''No words found starting with '' @ [letter] @ ''\<newline>'')"
proof -
  define worddict :: worddict where
    "worddict = (\<lambda>c. if filter (\<lambda>word. hd word = c) [''apple'', ''ant'', ''bee''] = [] then None
        else Some (filter (\<lambda>word. hd word = c) [''apple'', ''ant'', ''bee'']))"
  have d: "wordlist_to_worddict [''apple'', ''ant'', ''bee''] = Inr worddict"
    unfolding worddict_def by (rule wordlist_to_worddict_total) simp
  have h1: "list_all (\<lambda>c. worddict c \<noteq> None) ''ab''"
    by (simp add: worddict_def)
  have h2: "\<not> list_all (\<lambda>c. worddict c \<noteq> None) ''bat''"
    by (simp add: worddict_def)
  note t1 = find_acrostic_words [OF d, of "''ab''" SystemRandom example_world]
  note t2 = find_acrostic_words [OF d, of "''bat''" SystemRandom example_world]
  show ?thesis
    by (intro exI [of _ worddict] conjI d h1 h2 mp [OF conjunct1 [OF t1] h1]
        mp [OF conjunct2 [OF t2] h2])
qed

section \<open>Properties of the case transformer\<close>

lemma coin_index: "[True, False] ! (n mod Suc (Suc 0)) = (n mod 2 = 0)"
proof -
  have "n mod 2 = 0 \<or> n mod 2 = 1"
    by arith
  then show ?thesis
    by (auto simp flip: numeral_2_eq_2)
qed

lemma make_upper_result:
  "\<exists>w'. make_upper testing word w =
       (Inr (if outputs (module_random (if testing then random_seed word w else w))
                (drawn (module_random (if testing then random_seed word w else w))) mod 2 = 0
             then str_upper word else word), w') \<and>
     seeding w' = seeding w \<and> stderr w' = stderr w"
  by (simp add: make_upper_def random_choice_def choice_def randbelow_def random_seed_def Let_def
      coin_index)

lemma make_upper_testing:
  "\<exists>w'. make_upper True word w =
       (Inr (if seeding w word 0 mod 2 = 0 then str_upper word else word), w') \<and>
     seeding w' = seeding w"
  using make_upper_result [of True word w] by (auto simp: random_seed_def)


lemma comprehension_make_upper_testing:
  "\<exists>w'. comprehension (make_upper True) xs w =
      (Inr (map (\<lambda>word. if seeding w word 0 mod 2 = 0 then str_upper word else word) xs), w') \<and>
     seeding w' = seeding w"
proof (induction xs arbitrary: w)
  case Nil
  show ?case by simp
next
  case (Cons x xs)
  from make_upper_testing [of x w]
  obtain w1 where y: "make_upper True x w =
      (Inr (if seeding w x 0 mod 2 = 0 then str_upper x else x), w1)" "seeding w1 = seeding w"
    by blast
  from Cons.IH [of w1]
  obtain w2 where ys: "comprehension (make_upper True) xs w1 =
      (Inr (map (\<lambda>word. if seeding w1 word 0 mod 2 = 0 then str_upper word else word) xs), w2)"
    "seeding w2 = seeding w1"
    by blast
  show ?case
    using y ys by simp
qed


lemma set_case_random_testing:
  "\<exists>w'. set_case words ''random'' True w =
      (Inr (map (\<lambda>word. if seeding w (str_lower word) 0 mod 2 = 0
                         then str_upper (str_lower word) else str_lower word) words), w') \<and>
     seeding w' = seeding w"
  using comprehension_make_upper_testing [of "lower_case words" w]
  by (simp add: set_case_def random_case_def lower_case_def comp_def)

text \<open>
  Claim C9. In the test mode of the random method, take two invocations of \<^verbatim>\<open>set_case\<close>,
  on any two word lists and in any two states of the generators, with the same seeding
  procedure. Both return, with as many words as they were given, and wherever the same word
  stands in the two inputs, the same cased word stands in the two results. An invocation
  leaves the seeding procedure as it was, so the next one meets the assumption.
\<close>

theorem random_case_testing_deterministic:
  assumes "seeding w1 = seeding w2" and "i < length words1" and "j < length words2"
    and "words1 ! i = words2 ! j"
  shows "\<exists>cased1 w1' cased2 w2'.
      set_case words1 ''random'' True w1 = (Inr cased1, w1') \<and>
      set_case words2 ''random'' True w2 = (Inr cased2, w2') \<and>
      length cased1 = length words1 \<and> length cased2 = length words2 \<and>
      cased1 ! i = cased2 ! j \<and> seeding w1' = seeding w1 \<and> seeding w2' = seeding w2"
proof -
  from set_case_random_testing [of words1 w1]
  obtain w1' where a: "set_case words1 ''random'' True w1 =
      (Inr (map (\<lambda>word. if seeding w1 (str_lower word) 0 mod 2 = 0
                         then str_upper (str_lower word) else str_lower word) words1), w1')"
    "seeding w1' = seeding w1"
    by blast
  from set_case_random_testing [of words2 w2]
  obtain w2' where b: "set_case words2 ''random'' True w2 =
      (Inr (map (\<lambda>word. if seeding w2 (str_lower word) 0 mod 2 = 0
                         then str_upper (str_lower word) else str_lower word) words2), w2')"
    "seeding w2' = seeding w2"
    by blast
  show ?thesis
    using a b assms by simp
qed

text \<open>
  The theorem at the word \<^verbatim>\<open>ab\<close>, second in one list and first in the other, with the
  module's generator in two different states.
\<close>

theorem random_case_testing_deterministic_witness:
  "seeding example_world =
     seeding (example_world\<lparr>module_random := \<lparr>outputs = (\<lambda>i. 7), drawn = 5\<rparr>\<rparr>) \<and>
   (1::nat) < length [''Foo'', ''ab''] \<and> (0::nat) < length [''ab'', ''x''] \<and>
   [''Foo'', ''ab''] ! 1 = [''ab'', ''x''] ! 0 \<and>
   fst (set_case [''Foo'', ''ab''] ''random'' True example_world) = Inr [''foo'', ''AB''] \<and>
   (\<exists>cased1 w1' cased2 w2'.
      set_case [''Foo'', ''ab''] ''random'' True example_world = (Inr cased1, w1') \<and>
      set_case [''ab'', ''x''] ''random'' True
        (example_world\<lparr>module_random := \<lparr>outputs = (\<lambda>i. 7), drawn = 5\<rparr>\<rparr>) = (Inr cased2, w2') \<and>
      length cased1 = length [''Foo'', ''ab''] \<and> length cased2 = length [''ab'', ''x''] \<and>
      cased1 ! 1 = cased2 ! 0 \<and> seeding w1' = seeding example_world \<and>
      seeding w2' = seeding (example_world\<lparr>module_random := \<lparr>outputs = (\<lambda>i. 7), drawn = 5\<rparr>\<rparr>))"
proof -
  have h1: "seeding example_world =
     seeding (example_world\<lparr>module_random := \<lparr>outputs = (\<lambda>i. 7), drawn = 5\<rparr>\<rparr>)"
    by simp
  have h2: "(1::nat) < length [''Foo'', ''ab'']" and h3: "(0::nat) < length [''ab'', ''x'']"
    and h4: "[''Foo'', ''ab''] ! 1 = [''ab'', ''x''] ! 0"
    by simp_all
  have e: "fst (set_case [''Foo'', ''ab''] ''random'' True example_world) = Inr [''foo'', ''AB'']"
    by (simp add: set_case_def random_case_def lower_case_def make_upper_def random_seed_def
      random_choice_def choice_def randbelow_def str_lower_def str_upper_def char_upper_def
      char_lower_def ascii_lowercase_def ascii_uppercase_def example_world_def mod_Suc)
  show ?thesis
    by (intro conjI h1 h2 h3 h4 e random_case_testing_deterministic [OF h1 h2 h3 h4])
qed



section \<open>Properties of the passphrase assembler\<close>

lemma random_randint_range:
  "a \<le> b \<Longrightarrow> \<exists>k w'. random_randint a b w = (a + int k, w') \<and> k < nat (b - a + 1) \<and>
     stderr w' = stderr w \<and> system_random w' = system_random w \<and>
     weak_random w' = weak_random w \<and>
     drawn (module_random w') = Suc (drawn (module_random w))"
  by (simp add: random_randint_def randint_def randbelow_def)

lemma str_int_digit: "k < 10 \<Longrightarrow> str_int (int k) = [''0123456789'' ! k]"
  by (simp add: str_int_def str_nat.simps digit_char_def)

lemma digits_loop_digits:
  "\<exists>ds w'. digits_loop n digits w = (digits @ ds, w') \<and> length ds = n \<and>
     list_all (\<lambda>c. c \<in> set ''0123456789'') ds \<and> stderr w' = stderr w \<and>
     system_random w' = system_random w \<and> weak_random w' = weak_random w \<and>
     drawn (module_random w') = drawn (module_random w) + n"
proof (induction n arbitrary: digits w)
  case 0
  show ?case by simp
next
  case (Suc n)
  from random_randint_range [of 0 9 w]
  obtain k w1 where k: "random_randint 0 9 w = (int k, w1)" "k < 10" "stderr w1 = stderr w"
    "system_random w1 = system_random w" "weak_random w1 = weak_random w"
    "drawn (module_random w1) = Suc (drawn (module_random w))"
    by auto
  have m: "''0123456789'' ! k \<in> set ''0123456789''"
    using k(2) by (intro nth_mem) simp
  from Suc.IH [of "digits @ str_int (int k)" w1]
  obtain ds w' where d: "digits_loop n (digits @ str_int (int k)) w1 = ((digits @ str_int (int k)) @ ds, w')"
    "length ds = n" "list_all (\<lambda>c. c \<in> set ''0123456789'') ds" "stderr w' = stderr w1"
    "system_random w' = system_random w1" "weak_random w' = weak_random w1"
    "drawn (module_random w') = drawn (module_random w1) + n"
    by blast
  show ?case
    using k d m
    by (intro exI [of _ "str_int (int k) @ ds"] exI [of _ w']) (simp add: str_int_digit)
qed

lemma symbols_loop_symbols:
  "\<exists>ss w'. symbols_loop n symbols w = (symbols @ ss, w') \<and> length ss = n \<and>
     list_all (\<lambda>c. c \<in> set ALLOWED_SYMBOLS) ss \<and> stderr w' = stderr w \<and>
     system_random w' = system_random w \<and> weak_random w' = weak_random w \<and>
     drawn (module_random w') = drawn (module_random w) + n"
proof (induction n arbitrary: symbols w)
  case 0
  show ?case by simp
next
  case (Suc n)
  have l: "length ALLOWED_SYMBOLS = 27"
    by (simp add: ALLOWED_SYMBOLS_def)
  from random_randint_range [of 0 "int (length ALLOWED_SYMBOLS) - 1" w]
  obtain k w1 where k: "random_randint 0 (int (length ALLOWED_SYMBOLS) - 1) w = (int k, w1)"
    "k < length ALLOWED_SYMBOLS" "stderr w1 = stderr w"
    "system_random w1 = system_random w" "weak_random w1 = weak_random w"
    "drawn (module_random w1) = Suc (drawn (module_random w))"
    by (auto simp: l)
  have m: "ALLOWED_SYMBOLS ! k \<in> set ALLOWED_SYMBOLS"
    using k(2) by (rule nth_mem)
  from Suc.IH [of "symbols @ [ALLOWED_SYMBOLS ! k]" w1]
  obtain ss w' where d: "symbols_loop n (symbols @ [ALLOWED_SYMBOLS ! k]) w1 = ((symbols @ [ALLOWED_SYMBOLS ! k]) @ ss, w')"
    "length ss = n" "list_all (\<lambda>c. c \<in> set ALLOWED_SYMBOLS) ss" "stderr w' = stderr w1"
    "system_random w' = system_random w1" "weak_random w' = weak_random w1"
    "drawn (module_random w') = drawn (module_random w1) + n"
    by blast
  show ?case
    using k d m
    by (intro exI [of _ "(ALLOWED_SYMBOLS ! k) # ss"] exI [of _ w']) simp
qed





subsection \<open>The generator behind the digits and the symbols\<close>

text \<open>
  The word draws leave the module's hidden generator alone, in both modes and whatever the
  class bound to \<^verbatim>\<open>rng\<close>; a case method other than the random one draws nothing. Every
  digit and every symbol is one draw from the hidden generator.
\<close>

lemma rng_choice_module_random:
  "module_random (snd (rng_choice rng seq w)) = module_random w"
  by (cases rng) (simp_all add: rng_choice_def choice_def randbelow_def split: prod.splits)

lemma comprehension_choice_module_random:
  "module_random (snd (comprehension (\<lambda>i. rng_choice rng wordlist) xs w)) = module_random w"
proof (induction xs arbitrary: w)
  case Nil
  show ?case by simp
next
  case (Cons x xs)
  obtain r w1 where c: "rng_choice rng wordlist w = (r, w1)"
    by (cases "rng_choice rng wordlist w")
  with rng_choice_module_random [of rng wordlist w] have m: "module_random w1 = module_random w"
    by simp
  show ?case
    using c m Cons.IH [of w1]
    by (cases r) (auto split: prod.splits sum.splits)
qed

lemma find_acrostic_loop_module_random:
  "module_random (snd (find_acrostic_loop rng acrostic worddict words w)) = module_random w"
proof (induction acrostic arbitrary: words w)
  case Nil
  show ?case by simp
next
  case (Cons letter rest)
  show ?case
  proof (cases "worddict letter")
    case None
    then show ?thesis by simp
  next
    case (Some bucket)
    obtain r w1 where c: "rng_choice rng bucket w = (r, w1)"
      by (cases "rng_choice rng bucket w")
    with rng_choice_module_random [of rng bucket w] have m: "module_random w1 = module_random w"
      by simp
    show ?thesis
      using Some c m Cons.IH [of _ w1] by (cases r) auto
  qed
qed

lemma set_case_fixed_world:
  "case_name \<noteq> ''random'' \<Longrightarrow> snd (set_case words case_name False w) = w"
  by (simp add: set_case_def CASE_METHODS_def)

lemma gen_passwd_module_draws:
  assumes "gen_passwd rng wordlist numwords acrostic worddict delimiter case_name
             num_digits num_symbols w = (Inr passwd, w')"
    and "case_name \<noteq> ''random''"
  shows "drawn (module_random w') = drawn (module_random w) + nat num_digits + nat num_symbols"
proof -
  let ?sel = "case acrostic of
        None \<Rightarrow> choose_words rng wordlist numwords w
      | Some a \<Rightarrow>
          if a = [] then choose_words rng wordlist numwords w
          else find_acrostic rng a worddict w"
  obtain r1 w1 where s: "?sel = (r1, w1)"
    by (cases ?sel)
  have "module_random (snd ?sel) = module_random w"
    by (simp add: choose_words_def find_acrostic_def comprehension_choice_module_random
        find_acrostic_loop_module_random split: option.splits)
  with s have m1: "module_random w1 = module_random w"
    by simp
  from assms(1) s obtain words where r1: "r1 = Inr words"
    by (cases r1) (auto simp: gen_passwd_def)
  obtain r2 w2 where c: "set_case words case_name False w1 = (r2, w2)"
    by (cases "set_case words case_name False w1")
  with set_case_fixed_world [OF assms(2), of words w1] have m2: "w2 = w1"
    by simp
  from assms(1) s r1 c obtain cased where r2: "r2 = Inr cased"
    by (cases r2) (auto simp: gen_passwd_def)
  from digits_loop_digits [of "nat num_digits" "[]" w2]
  obtain digits w3 where d: "digits_loop (nat num_digits) [] w2 = (digits, w3)"
    "drawn (module_random w3) = drawn (module_random w2) + nat num_digits"
    by auto
  define w3' where "w3' = (if num_digits \<noteq> 0 then w3 else w2)"
  from d have d': "(if num_digits \<noteq> 0 then digits_loop (nat num_digits) [] w2 else ([], w2)) = (if num_digits \<noteq> 0 then digits else [], w3')"
    "drawn (module_random w3') = drawn (module_random w2) + nat num_digits"
    by (auto simp: w3'_def)
  from symbols_loop_symbols [of "nat num_symbols" "[]" w3']
  obtain symbols w4 where y: "symbols_loop (nat num_symbols) [] w3' = (symbols, w4)"
    "drawn (module_random w4) = drawn (module_random w3') + nat num_symbols"
    by auto
  define w4' where "w4' = (if num_symbols \<noteq> 0 then w4 else w3')"
  from y have y': "(if num_symbols \<noteq> 0 then symbols_loop (nat num_symbols) [] w3' else ([], w3')) = (if num_symbols \<noteq> 0 then symbols else [], w4')"
    "drawn (module_random w4') = drawn (module_random w3') + nat num_symbols"
    by (auto simp: w4'_def)
  have "w' = w4'"
    using assms(1) s r1 c r2 d'(1) y'(1) by (simp add: gen_passwd_def)
  then show ?thesis
    using m1 m2 d'(2) y'(2) by simp
qed

text \<open>
  Claim C4 fails on the code. With \<^verbatim>\<open>rng\<close> bound to \<^verbatim>\<open>random.SystemRandom\<close>, one digit and
  one symbol, the two word draws are the only draws from the secure source, and the digit
  and the symbol are two draws from the hidden generator of the \<^verbatim>\<open>random\<close> module.
\<close>

theorem gen_passwd_digits_symbols_weak:
  "fst (gen_passwd SystemRandom [''foo'', ''bar''] 2 None Map.empty ''.'' ''first'' 1 1
          example_world) = Inr ''Foo.Bar1$'' \<and>
   drawn (module_random example_world) = 0 \<and>
   drawn (module_random (snd (gen_passwd SystemRandom [''foo'', ''bar''] 2 None Map.empty
          ''.'' ''first'' 1 1 example_world))) = 2 \<and>
   drawn (system_random (snd (gen_passwd SystemRandom [''foo'', ''bar''] 2 None Map.empty
          ''.'' ''first'' 1 1 example_world))) = 2"
  by (simp add: gen_passwd_def choose_words_def xrange_def rng_choice_def choice_def
      randbelow_def set_case_def CASE_METHODS_def first_upper_case_def str_capitalize_def
      char_upper_def char_lower_def ascii_lowercase_def ascii_uppercase_def
      random_randint_def randint_def str_int_def str_nat.simps digit_char_def
      ALLOWED_SYMBOLS_def example_world_def numeral_2_eq_2 upt_rec)

section \<open>Properties of the entropy reporter\<close>

subsection \<open>The conversion of an integer to a float\<close>

text \<open>
  The limit of the conversion is the right one for \<open>double_nearest\<close>: below it the nearest
  double is finite, and the nearest double of the limit itself is \<open>2 ^ 1024\<close>, an infinity.
\<close>

lemma round_half_even_bound: "\<bar>real_of_int (round_half_even y)\<bar> \<le> \<bar>y\<bar> + 1 / 2"
proof -
  define f where "f = \<lfloor>y\<rfloor>"
  have b: "real_of_int f \<le> y" "y < real_of_int f + 1"
    unfolding f_def by linarith+
  have "round_half_even y = f \<and> y - real_of_int f \<le> 1 / 2 \<or>
        round_half_even y = f + 1 \<and> 1 / 2 \<le> y - real_of_int f"
    by (cases "y - real_of_int f < 1 / 2"; cases "1 / 2 < y - real_of_int f"; cases "even f")
      (simp_all add: round_half_even_def Let_def flip: f_def)
  with b show ?thesis
    by (auto simp: abs_if)
qed

lemma below_next_power:
  fixes x :: real
  assumes "x \<noteq> 0"
  shows "\<bar>x\<bar> < 2 powr (of_int \<lfloor>log 2 \<bar>x\<bar>\<rfloor> + 1)"
  using assms less_powr_iff by force

lemma int_below: "\<bar>real_of_int m\<bar> < 2 ^ 53 \<Longrightarrow> real_of_int \<bar>m\<bar> \<le> 2 ^ 53 - 1"
proof -
  assume "\<bar>real_of_int m\<bar> < 2 ^ 53"
  then have "real_of_int \<bar>m\<bar> < real_of_int (2 ^ 53)"
    by simp
  then have "\<bar>m\<bar> < 2 ^ 53"
    by (simp only: of_int_less_iff)
  then have "\<bar>m\<bar> \<le> 2 ^ 53 - 1"
    by simp
  then have "real_of_int \<bar>m\<bar> \<le> real_of_int (2 ^ 53 - 1)"
    by (simp only: of_int_le_iff)
  then show ?thesis
    by simp
qed

lemma int_below_half:
  "\<bar>real_of_int m\<bar> < 2 ^ 53 + 1 / 2 \<Longrightarrow> real_of_int \<bar>m\<bar> \<le> 2 ^ 53"
proof -
  assume "\<bar>real_of_int m\<bar> < 2 ^ 53 + 1 / 2"
  then have "real_of_int \<bar>m\<bar> < real_of_int (2 ^ 53 + 1)"
    by simp
  then have "\<bar>m\<bar> < 2 ^ 53 + 1"
    by (simp only: of_int_less_iff)
  then have "\<bar>m\<bar> \<le> 2 ^ 53"
    by simp
  then have "real_of_int \<bar>m\<bar> \<le> real_of_int (2 ^ 53)"
    by (simp only: of_int_le_iff)
  then show ?thesis
    by simp
qed

lemma double_nearest_finite:
  fixes x :: real
  assumes "\<bar>x\<bar> < 2 ^ 1024 - 2 ^ 970"
  shows "\<bar>double_nearest x\<bar> < 2 ^ 1024"
proof (cases "x = 0")
  case True
  then show ?thesis by (simp add: double_nearest_def)
next
  case False
  define e where "e = max \<lfloor>log 2 \<bar>x\<bar>\<rfloor> (- 1022)"
  define u where "u = double_ulp x"
  define m where "m = round_half_even (x / u)"
  have u: "u = 2 powr (of_int e - 52)"
    by (simp add: u_def double_ulp_def e_def)
  have upos: "0 < u"
    by (simp add: u)
  have r: "double_nearest x = of_int m * u"
    using False by (simp add: double_nearest_def m_def u_def)
  have m: "\<bar>real_of_int m\<bar> \<le> \<bar>x\<bar> / u + 1 / 2"
    using round_half_even_bound [of "x / u"] upos by (simp add: m_def)
  have lt: "\<bar>x\<bar> < 2 powr (of_int e + 1)"
  proof -
    have "\<bar>x\<bar> < 2 powr (of_int \<lfloor>log 2 \<bar>x\<bar>\<rfloor> + 1)"
      by (rule below_next_power [OF False])
    also have "\<dots> \<le> 2 powr (of_int e + 1)"
      by (simp add: e_def)
    finally show ?thesis .
  qed
  have e_le: "e \<le> 1023"
  proof -
    have "\<bar>x\<bar> < 2 powr 1024"
      using assms by (simp add: powr_numeral) 
    then have "log 2 \<bar>x\<bar> < 1024"
      using False by (simp add: log_less_iff)
    then have "\<lfloor>log 2 \<bar>x\<bar>\<rfloor> < 1024"
      by linarith
    then show ?thesis
      by (simp add: e_def)
  qed
  have p53: "(2::real) ^ 53 = 2 powr 53"
    by (simp add: powr_numeral)
  have u53: "u * 2 ^ 53 = 2 powr (of_int e + 1)"
  proof -
    have "u * 2 ^ 53 = 2 powr (of_int e - 52) * 2 powr 53"
      by (simp only: p53 u)
    also have "\<dots> = 2 powr ((of_int e - 52) + 53)"
      by (simp only: powr_add)
    also have "(of_int e - 52) + 53 = (of_int e + 1 :: real)"
      by simp
    finally show ?thesis .
  qed
  show ?thesis
  proof (cases "e \<le> 1022")
    case True
    have "\<bar>x\<bar> / u < 2 ^ 53"
      using lt upos u53 by (simp add: divide_less_eq mult.commute)
    with m have "\<bar>real_of_int m\<bar> < 2 ^ 53 + 1 / 2"
      by linarith
    then have "real_of_int \<bar>m\<bar> \<le> 2 ^ 53"
      by (rule int_below_half)
    then have "\<bar>double_nearest x\<bar> \<le> 2 ^ 53 * u"
      using upos by (simp add: r abs_mult)
    also have "\<dots> = 2 powr (of_int e + 1)"
      using u53 by (simp add: mult.commute)
    also have "\<dots> \<le> 2 powr 1023"
      by (rule powr_mono) (use True in simp_all)
    also have "\<dots> < 2 ^ 1024"
      by (simp add: powr_numeral)
    finally show ?thesis .
  next
    case False
    with e_le have e: "e = 1023"
      by simp
    have u971: "u = 2 ^ 971"
      by (simp add: u e powr_numeral)
    have "\<bar>x\<bar> / u < 2 ^ 53 - 1 / 2"
      using assms unfolding u971 by (simp add: divide_less_eq)
    with m have "\<bar>real_of_int m\<bar> < 2 ^ 53"
      by linarith
    then have "real_of_int \<bar>m\<bar> \<le> 2 ^ 53 - 1"
      by (rule int_below)
    then have "\<bar>double_nearest x\<bar> \<le> (2 ^ 53 - 1) * u"
      using upos by (simp add: r abs_mult)
    also have "\<dots> < 2 ^ 1024"
      unfolding u971 by simp
    finally show ?thesis .
  qed
qed

lemma float_of_int_finite:
  "float_of_int n = Inr f \<Longrightarrow> \<bar>f\<bar> < 2 ^ 1024"
proof -
  assume a: "float_of_int n = Inr f"
  then have "\<bar>n\<bar> < 2 ^ 1024 - 2 ^ 970" and f: "f = double_nearest (of_int n)"
    by (auto simp: float_of_int_def FLOAT_INT_LIMIT_def split: if_splits)
  then have "real_of_int \<bar>n\<bar> < real_of_int (2 ^ 1024 - 2 ^ 970)"
    by (simp only: of_int_less_iff)
  then have "\<bar>real_of_int n\<bar> < 2 ^ 1024 - 2 ^ 970"
    by simp
  then show ?thesis
    unfolding f by (rule double_nearest_finite)
qed

lemma limit_rounds_to_infinity:
  "double_round (of_int FLOAT_INT_LIMIT) = Infinity"
proof -
  define x :: real where "x = 2 ^ 1024 - 2 ^ 970"
  have x: "real_of_int FLOAT_INT_LIMIT = x"
    by (simp add: FLOAT_INT_LIMIT_def x_def)
  have xpos: "0 < x" and xne: "x \<noteq> 0" and xabs: "\<bar>x\<bar> = x"
    by (simp_all add: x_def)
  have "2 powr (of_int 1023) \<le> x \<and> x < 2 powr (of_int (1023 + 1))"
    by (simp add: x_def powr_numeral)
  then have fl: "\<lfloor>log 2 x\<rfloor> = 1023"
    using floor_log_eq_powr_iff [of x 2 1023] xpos by simp
  have u: "double_ulp x = 2 ^ 971"
    by (simp add: double_ulp_def xabs fl powr_numeral)
  have q: "x / 2 ^ 971 = 2 ^ 53 - 1 / 2"
    by (simp add: x_def field_simps)
  have f: "\<lfloor>(2::real) ^ 53 - 1 / 2\<rfloor> = 2 ^ 53 - 1"
    by (simp add: floor_eq_iff)
  have m: "round_half_even (x / double_ulp x) = 2 ^ 53"
    unfolding u q by (simp add: round_half_even_def Let_def f)
  have "double_nearest x = of_int (round_half_even (x / double_ulp x)) * double_ulp x"
    using xne by (simp only: double_nearest_def if_False)
  also have "\<dots> = of_int (2 ^ 53) * double_ulp x"
    by (simp only: m)
  also have "\<dots> = of_int (2 ^ 53) * 2 ^ 971"
    by (simp only: u)
  also have "\<dots> = 2 ^ 1024"
    by simp
  finally have "double_nearest x = 2 ^ 1024" .
  then show ?thesis
    by (simp add: double_round_def x)
qed

subsection \<open>The report at a pool of size one\<close>

lemma double_round_zero: "double_round 0 = Finite 0"
  by (simp add: double_round_def double_nearest_def)

lemma float_zero_product:
  "\<bar>numwords\<bar> < FLOAT_INT_LIMIT \<Longrightarrow>
   \<exists>f. float_of_int numwords = Inr f \<and> int_of_float (float_mul 0 f) = Inr 0"
  by (simp add: float_of_int_def float_mul_def int_of_float_def double_round_zero py_int_def)

text \<open>
  Claim C8, as amended. At a pool of size one, with a word count in the range of a float,
  \<^verbatim>\<open>verbose_reports\<close> does not fail: it returns after printing the ordinary report, with
  \<^verbatim>\<open>0.00\<close> bits for a word and 0 bits of entropy, and it writes nothing to the diagnostic
  output. Nothing is said here of a pool of size zero.
\<close>

theorem verbose_reports_pool_of_one:
  assumes "pool_size wordlist opts = Inr (1, numwords)"
    and "\<bar>numwords\<bar> < FLOAT_INT_LIMIT"
  shows "verbose_reports libm_log2 wordlist opts w =
           (Inr (),
            w\<lparr>stdout := stdout w @
               [Text ''With the current options, your word list contains 1 words.'',
                Text ''\<newline>'',
                Text (''A '' @ str_int numwords @
                      '' word password from this list will have roughly 0 (''),
                Float2 0,
                Text ('' * '' @ str_int numwords @ '') bits of entropy,''),
                Text ''\<newline>'',
                Text ''assuming truly random word selection.\<newline>'',
                Text ''\<newline>'']\<rparr>) \<and>
         stderr (snd (verbose_reports libm_log2 wordlist opts w)) = stderr w"
proof -
  from float_zero_product [OF assms(2)]
  obtain f where f: "float_of_int numwords = Inr f"
    "int_of_float (float_mul 0 f) = Inr 0"
    by blast
  have one: "str_int (int 1) = ''1''" and zero: "str_int 0 = ''0''"
    by (simp_all add: str_int_def str_nat.simps digit_char_def)
  show ?thesis
    using assms(1) f one zero
    by (simp add: verbose_reports_def math_log2_def py_print_def)
qed

text \<open>
  The theorem in acrostic mode, at an acrostic whose buckets hold one word in all.
\<close>

theorem verbose_reports_pool_of_one_witness:
  "pool_size [''apple'', ''bee''] \<lparr>opt_acrostic = Some ''ac'', opt_numwords = 3\<rparr> = Inr (1, 2) \<and>
   \<bar>2\<bar> < FLOAT_INT_LIMIT \<and>
   verbose_reports (\<lambda>n. log 2 (real n)) [''apple'', ''bee'']
       \<lparr>opt_acrostic = Some ''ac'', opt_numwords = 3\<rparr> example_world =
     (Inr (),
      example_world\<lparr>stdout := stdout example_world @
         [Text ''With the current options, your word list contains 1 words.'',
          Text ''\<newline>'',
          Text (''A '' @ str_int 2 @
                '' word password from this list will have roughly 0 (''),
          Float2 0,
          Text ('' * '' @ str_int 2 @ '') bits of entropy,''),
          Text ''\<newline>'',
          Text ''assuming truly random word selection.\<newline>'',
          Text ''\<newline>'']\<rparr>) \<and>
   stderr (snd (verbose_reports (\<lambda>n. log 2 (real n)) [''apple'', ''bee'']
       \<lparr>opt_acrostic = Some ''ac'', opt_numwords = 3\<rparr> example_world)) = stderr example_world"
proof -
  have p: "pool_size [''apple'', ''bee''] \<lparr>opt_acrostic = Some ''ac'', opt_numwords = 3\<rparr> = Inr (1, 2)"
    by (simp add: pool_size_def wordlist_to_worddict_def bucket_total_def)
  have h: "\<bar>2\<bar> < FLOAT_INT_LIMIT"
    by (simp add: FLOAT_INT_LIMIT_def)
  show ?thesis
    by (intro conjI p h conjunct1 [OF verbose_reports_pool_of_one [OF p h]]
        conjunct2 [OF verbose_reports_pool_of_one [OF p h]])
qed

text \<open>
  Claim C8 as stated, a failure with a diagnostic at a pool of size zero or one, fails at a
  wordlist of one word in plain mode: the call returns, the three lines of the ordinary
  report are on the standard output, and the diagnostic output is empty as before.
\<close>

theorem verbose_reports_no_diagnostic:
  "verbose_reports (\<lambda>n. log 2 (real n)) [''apple'']
       \<lparr>opt_acrostic = None, opt_numwords = 3\<rparr> example_world =
     (Inr (),
      example_world\<lparr>stdout :=
         [Text ''With the current options, your word list contains 1 words.'',
          Text ''\<newline>'',
          Text ''A 3 word password from this list will have roughly 0 ('',
          Float2 0,
          Text '' * 3) bits of entropy,'',
          Text ''\<newline>'',
          Text ''assuming truly random word selection.\<newline>'',
          Text ''\<newline>'']\<rparr>) \<and>
   stderr example_world = []"
  by (simp add: verbose_reports_def pool_size_def math_log2_def py_print_def float_of_int_def
      FLOAT_INT_LIMIT_def float_mul_def int_of_float_def double_round_zero py_int_def
      str_int_def str_nat.simps digit_char_def example_world_def)

subsection \<open>Where the report is not reached\<close>

text \<open>
  At a pool of size zero the logarithm raises \<^verbatim>\<open>ValueError\<close> before anything is printed, and
  nothing in the program handles it. At a word count beyond the range of a float the
  conversion raises \<^verbatim>\<open>OverflowError\<close> after the first line is printed.
\<close>

lemma verbose_reports_empty_pool:
  "pool_size wordlist opts = Inr (0, numwords) \<Longrightarrow>
   verbose_reports libm_log2 wordlist opts w = (Inl ValueError, w)"
  by (simp add: verbose_reports_def math_log2_def)

lemma verbose_reports_overflow:
  "pool_size wordlist opts = Inr (n, numwords) \<Longrightarrow> 0 < n \<Longrightarrow>
   FLOAT_INT_LIMIT \<le> \<bar>numwords\<bar> \<Longrightarrow>
   verbose_reports libm_log2 wordlist opts w =
     (Inl OverflowError,
      py_print [Text (''With the current options, your word list contains '' @
                      str_int (int n) @ '' words.'')] w)"
  by (simp add: verbose_reports_def math_log2_def float_of_int_def)

end
